theory Spec2Isabelle
  imports Main
begin

section \<open>String utilities (utils/strings.ts)\<close>

text \<open>
  JavaScript strings are modelled as \<^typ>\<open>string\<close> (lists of characters).
  \<^verbatim>\<open>text.replace(/\n/g, '<br/>')\<close> scans the text from left to right and replaces
  each line feed by the five characters \<^verbatim>\<open><br/>\<close>; every other character is
  copied.
\<close>

definition newline :: char where
  "newline = CHR 0x0A"

fun newlineToBr :: "string \<Rightarrow> string" where
  "newlineToBr [] = []"
| "newlineToBr (c # cs) =
     (if c = newline then ''<br/>'' @ newlineToBr cs else c # newlineToBr cs)"

text \<open>
  \<^verbatim>\<open>s.split(sep)\<close> for a one-character separator: the pieces between the
  separators, in order; the result is never empty (\<^verbatim>\<open>''.split('_')\<close> is
  \<^verbatim>\<open>['']\<close>).
\<close>

fun split_char :: "char \<Rightarrow> string \<Rightarrow> string list" where
  "split_char sep [] = [[]]"
| "split_char sep (c # cs) =
     (if c = sep then [] # split_char sep cs
      else (case split_char sep cs of
              [] \<Rightarrow> [[c]]
            | w # ws \<Rightarrow> (c # w) # ws))"

text \<open>
  \<^verbatim>\<open>word.charAt(0).toUpperCase() + word.slice(1).toLowerCase()\<close>. The two case
  conversions are JavaScript's own; they are passed in as \<open>upper\<close> and \<open>lower\<close>.
\<close>

definition capitalise :: "(string \<Rightarrow> string) \<Rightarrow> (string \<Rightarrow> string) \<Rightarrow> string \<Rightarrow> string" where
  "capitalise upper lower word = upper (take 1 word) @ lower (drop 1 word)"

text \<open>\<^verbatim>\<open>words.join(' ')\<close>\<close>

fun join_space :: "string list \<Rightarrow> string" where
  "join_space [] = []"
| "join_space [w] = w"
| "join_space (w # v # ws) = w @ CHR '' '' # join_space (v # ws)"

definition niceify :: "(string \<Rightarrow> string) \<Rightarrow> (string \<Rightarrow> string) \<Rightarrow> string \<Rightarrow> string" where
  "niceify upper lower ident =
     join_space (map (capitalise upper lower) (split_char CHR ''_'' ident))"

section \<open>The story engine as the application sees it\<close>

text \<open>
  Values that cross the script-engine boundary, and the shape of the state object
  returned by \<^verbatim>\<open>story.getState()\<close>: booleans, numbers, strings, nil, ordered lists
  and mappings. Numbers are integers here; nothing below computes with them.
\<close>

datatype val =
    VBool bool
  | VNum int
  | VStr string
  | VNil
  | VList "val list"
  | VMap "(string \<times> val) list"

text \<open>
  A call into the story engine either returns a value or throws; in both cases it
  leaves an engine state behind (a script that fails half way has already run its
  first half).
\<close>

datatype ('r, 's) outcome = Returned 'r 's | Thrown string 's

text \<open>The \<^verbatim>\<open>Result\<close> of \<^verbatim>\<open>option.execute()\<close>; an absent field is \<open>None\<close>.\<close>

record result =
  result_confirmMsg :: "string option"
  result_nextSectionId :: "string option"
  result_notifyMsg :: "string option"

text \<open>
  The classes \<^verbatim>\<open>Story\<close>, \<^verbatim>\<open>Section\<close> and \<^verbatim>\<open>Option\<close> (codex/story.ts,
  codex/section.ts, codex/option.ts) are used by the application only through the
  members below, so each object is the record of those members, as functions of the
  engine state \<open>'st\<close> that the story owns. Getters read the state; \<^verbatim>\<open>visit\<close>,
  \<^verbatim>\<open>execute\<close>, \<^verbatim>\<open>trigger\<close> and \<^verbatim>\<open>setState\<close> run scripts or replace variables, so
  they change it and may throw. \<^verbatim>\<open>getState\<close> returns an object: which object it is
  (a number standing for its identity) and what it holds.
\<close>

record 'st story_option =
  option_id :: string
  execute :: "'st \<Rightarrow> (result, 'st) outcome"

record 'st story_section =
  section_id :: string
  section_text :: "'st \<Rightarrow> string"
  section_options :: "'st \<Rightarrow> (string \<times> 'st story_option) list"
  visit :: "'st \<Rightarrow> (unit, 'st) outcome"

record 'st story =
  story_title :: string
  getSection :: "string \<Rightarrow> 'st story_section option"
  getState :: "'st \<Rightarrow> nat \<times> val"
  setState :: "val \<Rightarrow> 'st \<Rightarrow> (unit, 'st) outcome"
  trigger :: "string \<Rightarrow> string list \<Rightarrow> 'st \<Rightarrow> (string, 'st) outcome"

text \<open>
  What the browser and the loader provide: \<^verbatim>\<open>JSON.stringify\<close>, \<^verbatim>\<open>JSON.parse\<close>
  (\<open>Inl\<close> is the message of the error it throws), the \<^verbatim>\<open>story\<close> parameter of the
  query string of a URL, \<^verbatim>\<open>Story.parse\<close> (\<open>None\<close> when loading fails), which
  gives the story and the engine state after its definition defaults and init code,
  the fragment that the URL parser makes of the text after a \<^verbatim>\<open>#\<close> (it
  percent-encodes some characters), and the case conversions of strings.
\<close>

record 'st env =
  json_stringify :: "val \<Rightarrow> string"
  json_parse :: "string \<Rightarrow> string + val"
  story_param :: "string \<Rightarrow> string option"
  parse_story :: "string \<Rightarrow> ('st story \<times> 'st) option"
  encode_fragment :: "string \<Rightarrow> string"
  toUpperCase :: "string \<Rightarrow> string"
  toLowerCase :: "string \<Rightarrow> string"

section \<open>The web application (codex.ts)\<close>

datatype console_entry = ConsoleLog string "val list" | ConsoleError string "val list"

text \<open>
  An \<^verbatim>\<open>async\<close> method that waits for the confirmation dialog stops at its
  \<^verbatim>\<open>await\<close>; the promise's \<^verbatim>\<open>resolve\<close> function kept in \<^verbatim>\<open>_confirmResolve\<close>
  stands for the remainder of that method, which is one of two things.
\<close>

datatype cont =
    TakeOptionK result
  | TriggerEventK string "string list"

text \<open>A record of what happened, in order; it is not read by the program.\<close>

datatype event =
    GetSectionCalled string
  | VisitCalled string
  | VisitReturned string
  | GetStateCalled
  | SetStateCalled val
  | ExecuteCalled string
  | ExecuteReturned string
  | TriggerCalled string "string list"
  | TriggerReturned string
  | StorageSet string string
  | StorageRemoved string
  | ConfirmShown string
  | ConfirmAnswered bool
  | NotifyShown string
  | HashReplaced string
  | PageLoad string

text \<open>
  The identity of the object in \<^verbatim>\<open>state\<close>: the literal \<^verbatim>\<open>{}\<close> of the data object,
  or an object that \<^verbatim>\<open>story.getState()\<close> returned.
\<close>

datatype objref = InitialObject | StoryObject nat

record 'st section_view =
  sv_id :: string
  sv_title :: string
  sv_text :: string
  sv_options :: "(string \<times> 'st story_option) list"

text \<open>
  The Alpine data object \<^verbatim>\<open>appState\<close>, the engine state behind the module variable
  \<^verbatim>\<open>story\<close>, and the parts of the browser the methods touch: the URL, the local
  storage, the document title, the two dialogs, the console, whether the
  \<^verbatim>\<open>$watch\<close> on \<^verbatim>\<open>state\<close> is registered, and the page load started by an
  assignment to \<^verbatim>\<open>window.location.href\<close>. The field \<^verbatim>\<open>section\<close> is
  \<open>cur_section\<close> here and \<^verbatim>\<open>_confirmResolve\<close> is \<open>confirmResolve\<close>. Beside the
  contents of \<^verbatim>\<open>state\<close> the record keeps which object it is (\<open>state_ref\<close>), since
  Alpine compares objects by identity, and whether a run of the watcher is queued
  (\<open>watcher_queued\<close>).
\<close>

record 'st app =
  title :: string
  cur_section :: "'st section_view"
  state :: val
  state_ref :: objref
  loaded :: bool
  sheetVisible :: bool
  notifyMsg :: string
  confirmMsg :: string
  confirmResolve :: "cont option"
  engine :: 'st
  href :: string
  localStorage :: "string \<rightharpoonup> string"
  documentTitle :: string
  notifyDialogOpen :: bool
  confirmDialogOpen :: bool
  console :: "console_entry list"
  watching :: bool
  watcher_queued :: bool
  navigation :: "string option"
  trace :: "event list"

text \<open>
  How a method call ends: it returned, it threw (for an \<^verbatim>\<open>async\<close> method: its
  promise was rejected), or it is waiting at an \<^verbatim>\<open>await\<close> for the dialog.
\<close>

datatype 'a run = Finished 'a | Failed string 'a | Suspended 'a

fun run_state :: "'a run \<Rightarrow> 'a" where
  "run_state (Finished a) = a"
| "run_state (Failed e a) = a"
| "run_state (Suspended a) = a"


text \<open>
  \<^verbatim>\<open>window.location.hash\<close>: the fragment of the URL with its \<^verbatim>\<open>#\<close>, or the empty
  string when the URL has no fragment or an empty one.
\<close>

definition location_hash :: "string \<Rightarrow> string" where
  "location_hash url =
     (let frag = dropWhile (\<lambda>c. c \<noteq> CHR ''#'') url
      in if length frag \<le> 1 then [] else frag)"

text \<open>
  \<^verbatim>\<open>window.history.replaceState(null, '', `#${sectionId}`)\<close>: the URL keeps
  everything before its fragment and gets the fragment that the URL parser makes of
  the section id.
\<close>

definition replaceState :: "'st env \<Rightarrow> string \<Rightarrow> 'st app \<Rightarrow> 'st app" where
  "replaceState env frag a =
     a\<lparr>href := takeWhile (\<lambda>c. c \<noteq> CHR ''#'') (href a) @ CHR ''#'' # encode_fragment env frag,
       trace := trace a @ [HashReplaced frag]\<rparr>"

definition removeItem :: "string \<Rightarrow> 'st app \<Rightarrow> 'st app" where
  "removeItem k a =
     a\<lparr>localStorage := (localStorage a)(k := None),
       trace := trace a @ [StorageRemoved k]\<rparr>"

text \<open>
  \<^verbatim>\<open>this.state = obj\<close>. The assignment itself stores nothing. Once \<^verbatim>\<open>init\<close> has
  registered its watcher, assigning an object other than the one \<^verbatim>\<open>state\<close> holds
  queues a run of the watcher; assigning the same object again does not.
\<close>

definition assign_state :: "nat \<times> val \<Rightarrow> 'st app \<Rightarrow> 'st app" where
  "assign_state obj a =
     a\<lparr>state := snd obj,
       state_ref := StoryObject (fst obj),
       watcher_queued :=
         (watcher_queued a \<or> (watching a \<and> StoryObject (fst obj) \<noteq> state_ref a))\<rparr>"

text \<open>
  The queued watcher runs as a microtask, after the method that made the assignment
  has returned or stopped at its \<^verbatim>\<open>await\<close>: it is the callback
  \<^verbatim>\<open>localStorage.setItem('codex_state', JSON.stringify(newState))\<close> on the state of
  that moment.
\<close>

definition run_watcher :: "'st env \<Rightarrow> 'st app \<Rightarrow> 'st app" where
  "run_watcher env a =
     (if watcher_queued a
      then a\<lparr>watcher_queued := False,
             localStorage := (localStorage a)(''codex_state'' \<mapsto> json_stringify env (state a)),
             trace := trace a @ [StorageSet ''codex_state'' (json_stringify env (state a))]\<rparr>
      else a)"

fun microtasks :: "'st env \<Rightarrow> 'st app run \<Rightarrow> 'st app run" where
  "microtasks env (Finished a) = Finished (run_watcher env a)"
| "microtasks env (Failed e a) = Failed e (run_watcher env a)"
| "microtasks env (Suspended a) = Suspended (run_watcher env a)"

subsection \<open>UI helpers\<close>

definition notify :: "string \<Rightarrow> 'st app \<Rightarrow> 'st app" where
  "notify message a =
     a\<lparr>notifyMsg := newlineToBr message,
       notifyDialogOpen := True,
       trace := trace a @ [NotifyShown message]\<rparr>"

definition confirm :: "string \<Rightarrow> cont \<Rightarrow> 'st app \<Rightarrow> 'st app" where
  "confirm message k a =
     a\<lparr>confirmMsg := newlineToBr message,
       confirmResolve := Some k,
       confirmDialogOpen := True,
       trace := trace a @ [ConfirmShown message]\<rparr>"

subsection \<open>gotoSection\<close>

definition gotoSection :: "'st env \<Rightarrow> 'st story \<Rightarrow> string \<Rightarrow> 'st app \<Rightarrow> 'st app run" where
  "gotoSection env story sectionId a =
     (if sectionId = ''restart'' then
        (let a1 = removeItem ''codex_state'' a;
             target = hd (split_char CHR ''#'' (href a1))
         in Finished (a1\<lparr>navigation := Some target,
                          trace := trace a1 @ [PageLoad target]\<rparr>))
      else
        (let a1 = a\<lparr>trace := trace a @ [GetSectionCalled sectionId]\<rparr>
         in case getSection story sectionId of
              None \<Rightarrow>
                Finished (a1\<lparr>console := console a1 @
                               [ConsoleError ''Section not found:'' [VStr sectionId]]\<rparr>)
            | Some sec \<Rightarrow>
                (let a2 = a1\<lparr>trace := trace a1 @ [VisitCalled (section_id sec)]\<rparr>
                 in case visit sec (engine a2) of
                      Thrown e st' \<Rightarrow> Failed e (a2\<lparr>engine := st'\<rparr>)
                    | Returned u st' \<Rightarrow>
                        (let a3 = a2\<lparr>engine := st',
                                      trace := trace a2 @
                                        [VisitReturned (section_id sec), GetStateCalled]\<rparr>;
                             a4 = assign_state (getState story st') a3;
                             a5 = a4\<lparr>cur_section :=
                                       \<lparr>sv_id = section_id sec,
                                        sv_title = niceify (toUpperCase env) (toLowerCase env)
                                                     (section_id sec),
                                        sv_text = newlineToBr (section_text sec st'),
                                        sv_options = section_options sec st'\<rparr>\<rparr>
                         in Finished (replaceState env sectionId a5)))))"

subsection \<open>takeOption\<close>

text \<open>The part of \<^verbatim>\<open>takeOption\<close> after the confirmation, if there was one.\<close>

definition takeOption_rest :: "'st env \<Rightarrow> 'st story \<Rightarrow> result \<Rightarrow> 'st app \<Rightarrow> 'st app run" where
  "takeOption_rest env story res a =
     (case (case result_nextSectionId res of
              None \<Rightarrow> Finished a
            | Some nextSectionId \<Rightarrow>
                if nextSectionId \<noteq> [] then gotoSection env story nextSectionId a
                else Finished a) of
        Failed e a1 \<Rightarrow> Failed e a1
      | Suspended a1 \<Rightarrow> Suspended a1
      | Finished a1 \<Rightarrow>
          (case result_notifyMsg res of
             None \<Rightarrow> Finished a1
           | Some msg \<Rightarrow> if msg \<noteq> [] then Finished (notify msg a1) else Finished a1))"

definition takeOption :: "'st env \<Rightarrow> 'st story \<Rightarrow> 'st story_option \<Rightarrow> 'st app \<Rightarrow> 'st app run" where
  "takeOption env story opt a =
     (let a1 = a\<lparr>trace := trace a @ [ExecuteCalled (option_id opt)]\<rparr>
      in case execute opt (engine a1) of
           Thrown e st' \<Rightarrow> Failed e (a1\<lparr>engine := st'\<rparr>)
         | Returned res st' \<Rightarrow>
             (let a2 = a1\<lparr>engine := st',
                           trace := trace a1 @ [ExecuteReturned (option_id opt)]\<rparr>
              in case result_confirmMsg res of
                   None \<Rightarrow> takeOption_rest env story res a2
                 | Some msg \<Rightarrow>
                     if msg \<noteq> [] then Suspended (confirm msg (TakeOptionK res) a2)
                     else takeOption_rest env story res a2))"

subsection \<open>triggerEvent\<close>

text \<open>The part of \<^verbatim>\<open>triggerEvent\<close> after the dialog has been answered.\<close>

definition triggerEvent_rest ::
  "'st env \<Rightarrow> 'st story \<Rightarrow> string \<Rightarrow> string list \<Rightarrow> bool \<Rightarrow> 'st app \<Rightarrow> 'st app run" where
  "triggerEvent_rest env story eventId args res a =
     (if \<not> res then Finished a
      else
        (let a1 = a\<lparr>trace := trace a @ [TriggerCalled eventId args]\<rparr>
         in case trigger story eventId args (engine a1) of
              Thrown e st' \<Rightarrow> Failed e (a1\<lparr>engine := st'\<rparr>)
            | Returned message st' \<Rightarrow>
                (let a2 = a1\<lparr>engine := st',
                              trace := trace a1 @ [TriggerReturned eventId, GetStateCalled]\<rparr>;
                     a3 = assign_state (getState story st') a2
                 in Finished (notify message a3))))"

definition triggerEvent :: "string \<Rightarrow> string \<Rightarrow> string list \<Rightarrow> 'st app \<Rightarrow> 'st app run" where
  "triggerEvent msg eventId args a =
     Suspended (confirm (msg @ [newline, newline] @ ''Are you sure?'')
                        (TriggerEventK eventId args) a)"

subsection \<open>confirmResult\<close>

text \<open>
  Closing the dialog resolves the pending promise with the answer and clears
  \<^verbatim>\<open>_confirmResolve\<close>; the method that was waiting then runs to its end.
\<close>

definition confirmResult :: "'st env \<Rightarrow> 'st story \<Rightarrow> bool \<Rightarrow> 'st app \<Rightarrow> 'st app run" where
  "confirmResult env story confirmed a =
     (let a1 = a\<lparr>confirmDialogOpen := False\<rparr>
      in case confirmResolve a1 of
           None \<Rightarrow> Finished a1
         | Some k \<Rightarrow>
             (let a2 = a1\<lparr>confirmResolve := None,
                           trace := trace a1 @ [ConfirmAnswered confirmed]\<rparr>
              in case k of
                   TakeOptionK res \<Rightarrow> takeOption_rest env story res a2
                 | TriggerEventK eventId args \<Rightarrow>
                     triggerEvent_rest env story eventId args confirmed a2))"

subsection \<open>init\<close>

text \<open>The \<^verbatim>\<open>else\<close> branch of \<^verbatim>\<open>init\<close>: load the saved state, if there is one.\<close>

definition restore_saved :: "'st env \<Rightarrow> 'st story \<Rightarrow> 'st app \<Rightarrow> 'st app" where
  "restore_saved env story a =
     (case localStorage a ''codex_state'' of
        None \<Rightarrow> a
      | Some savedState \<Rightarrow>
          if savedState = [] then a
          else
            (case json_parse env savedState of
               Inl e \<Rightarrow>
                 a\<lparr>console := console a @
                     [ConsoleError ''Failed to parse saved state from localStorage:'' [VStr e]]\<rparr>
             | Inr stateObj \<Rightarrow>
                 (let a1 = a\<lparr>trace := trace a @ [SetStateCalled stateObj]\<rparr>
                  in case setState story stateObj (engine a1) of
                       Thrown e st' \<Rightarrow>
                         a1\<lparr>engine := st',
                            console := console a1 @
                              [ConsoleError ''Failed to parse saved state from localStorage:''
                                 [VStr e]]\<rparr>
                     | Returned u st' \<Rightarrow>
                         a1\<lparr>engine := st',
                            console := console a1 @
                              [ConsoleLog ''Restored saved state from localStorage:''
                                 [stateObj]]\<rparr>)))"

definition startSectionId :: "string \<Rightarrow> string" where
  "startSectionId url =
     (let anchor = drop 1 (location_hash url)
      in if anchor \<noteq> [] then anchor else ''start'')"

text \<open>\<^verbatim>\<open>init\<close> from the point where \<^verbatim>\<open>Story.parse\<close> has returned the story.\<close>

definition init_story :: "'st env \<Rightarrow> 'st story \<Rightarrow> 'st app \<Rightarrow> 'st app run" where
  "init_story env story a =
     (let start = startSectionId (href a);
          a1 = (if start = ''start'' then removeItem ''codex_state'' a
                else restore_saved env story a);
          a2 = a1\<lparr>title := story_title story,
                   documentTitle := story_title story,
                   console := console a1 @ [ConsoleLog ''Loaded story:'' [VStr (story_title story)]]\<rparr>
      in case gotoSection env story start a2 of
           Failed e a3 \<Rightarrow> Failed e a3
         | Suspended a3 \<Rightarrow> Suspended a3
         | Finished a3 \<Rightarrow> Finished (a3\<lparr>loaded := True, watching := True\<rparr>))"

definition init :: "'st env \<Rightarrow> 'st app \<Rightarrow> 'st app run" where
  "init env a =
     (case story_param env (href a) of
        None \<Rightarrow> Finished (a\<lparr>console := console a @ [ConsoleError ''No story URL specified'' []]\<rparr>)
      | Some storyUrl \<Rightarrow>
          if storyUrl = [] then
            Finished (a\<lparr>console := console a @ [ConsoleError ''No story URL specified'' []]\<rparr>)
          else
            (let a1 = a\<lparr>console := console a @ [ConsoleLog (''Hello '' @ storyUrl) []]\<rparr>
             in case parse_story env storyUrl of
                  None \<Rightarrow> Failed ''Story.parse'' a1
                | Some (story, st0) \<Rightarrow> init_story env story (a1\<lparr>engine := st0\<rparr>)))"

subsection \<open>Page loads and answered dialogs\<close>

text \<open>
  The data object as \<^verbatim>\<open>Alpine.data('appState', ...)\<close> creates it when a page with
  URL \<open>url\<close> is loaded over the local storage \<open>store\<close>; \<open>st\<close> stands for the
  engine state that \<^verbatim>\<open>Story.parse\<close> has yet to produce.
\<close>

definition fresh_page :: "string \<Rightarrow> (string \<rightharpoonup> string) \<Rightarrow> 'st \<Rightarrow> 'st app" where
  "fresh_page url store st =
     \<lparr>title = [],
      cur_section = \<lparr>sv_id = [], sv_title = ''Loading...'',
                     sv_text = ''Please wait while the story loads...'',
                     sv_options = []\<rparr>,
      state = VMap [],
      state_ref = InitialObject,
      loaded = False,
      sheetVisible = True,
      notifyMsg = [],
      confirmMsg = [],
      confirmResolve = None,
      engine = st,
      href = url,
      localStorage = store,
      documentTitle = [],
      notifyDialogOpen = False,
      confirmDialogOpen = False,
      console = [],
      watching = False,
      watcher_queued = False,
      navigation = None,
      trace = []\<rparr>"

fun finished :: "'a run \<Rightarrow> bool" where
  "finished (Finished a) = True"
| "finished (Failed e a) = False"
| "finished (Suspended a) = False"


text \<open>
  A method followed by the user's answer to the dialog it opened, if it opened one:
  the method run to its end.
\<close>

fun answered :: "'st env \<Rightarrow> 'st story \<Rightarrow> bool \<Rightarrow> 'st app run \<Rightarrow> 'st app run" where
  "answered env story b (Suspended a) = confirmResult env story b a"
| "answered env story b (Finished a) = Finished a"
| "answered env story b (Failed e a) = Failed e a"

section \<open>Scope Manager and Interpolator\<close>

text \<open>
  Modelled from the spec: the Scope Manager (\<^verbatim>\<open>snapshotState\<close>, \<^verbatim>\<open>restoreState\<close> and
  the tier accessors live in codex/story.ts and codex/section.ts, which are not
  among the sources). Three tiers of variables: global, one namespace per section
  id, and ephemeral. The persisted layout holds all global-tier variables
  and the nested per-section mapping of section-tier variables; the ephemeral tier
  is never part of it.
\<close>

record scopes =
  global_tier :: "string \<rightharpoonup> val"
  section_tier :: "string \<rightharpoonup> (string \<rightharpoonup> val)"
  ephemeral_tier :: "string \<rightharpoonup> val"

record snapshot =
  snap_globals :: "string \<rightharpoonup> val"
  snap_sections :: "string \<rightharpoonup> (string \<rightharpoonup> val)"

text \<open>
  Modelled from the spec: a write to the ephemeral tier, as run-code does during a
  visit.
\<close>

definition setEphemeral :: "string \<Rightarrow> val \<Rightarrow> scopes \<Rightarrow> scopes" where
  "setEphemeral name v sc = sc\<lparr>ephemeral_tier := (ephemeral_tier sc)(name \<mapsto> v)\<rparr>"

text \<open>
  Modelled from the spec: \<^verbatim>\<open>snapshotState\<close> takes the global and section tiers;
  \<^verbatim>\<open>restoreState\<close> fully replaces both by the blob's and leaves the ephemeral tier
  empty.
\<close>

definition snapshotState :: "scopes \<Rightarrow> snapshot" where
  "snapshotState sc = \<lparr>snap_globals = global_tier sc, snap_sections = section_tier sc\<rparr>"

definition restoreState :: "snapshot \<Rightarrow> scopes \<Rightarrow> scopes" where
  "restoreState blob sc =
     sc\<lparr>global_tier := snap_globals blob,
        section_tier := snap_sections blob,
        ephemeral_tier := Map.empty\<rparr>"

text \<open>
  Modelled from the spec: the Script Engine, an external capability. It evaluates a
  code fragment against a scope view, giving a value or an error message, and has
  its own textual form of every value.
\<close>

record 'sc script_engine =
  se_execute :: "'sc \<Rightarrow> string \<Rightarrow> string + val"
  se_tostring :: "val \<Rightarrow> string"

text \<open>
  Modelled from the spec: the Interpolator (\<^verbatim>\<open>render\<close>, in codex/story.ts, which is
  not among the sources). One placeholder is replaced by the stringified value of
  its expression, or, when the evaluation fails, by a diagnostic marker made from
  the expression and the error.
\<close>

definition substitute ::
  "'sc script_engine \<Rightarrow> (string \<Rightarrow> string \<Rightarrow> string) \<Rightarrow> 'sc \<Rightarrow> string \<Rightarrow> string" where
  "substitute eng marker sc expr =
     (case se_execute eng sc expr of
        Inr v \<Rightarrow> se_tostring eng v
      | Inl err \<Rightarrow> marker expr err)"

text \<open>
  Modelled from the spec: the scan over the template. Outside a placeholder
  (\<open>None\<close>) characters are copied until an opening brace; inside one (\<open>Some expr\<close>)
  they are collected until the closing brace. An opening brace that is never closed
  stays in the text as it is.
\<close>

fun scan ::
  "'sc script_engine \<Rightarrow> (string \<Rightarrow> string \<Rightarrow> string) \<Rightarrow> 'sc \<Rightarrow> string option \<Rightarrow> string \<Rightarrow> string" where
  "scan eng marker sc None [] = []"
| "scan eng marker sc (Some expr) [] = CHR ''{'' # expr"
| "scan eng marker sc None (c # cs) =
     (if c = CHR ''{'' then scan eng marker sc (Some []) cs
      else c # scan eng marker sc None cs)"
| "scan eng marker sc (Some expr) (c # cs) =
     (if c = CHR ''}'' then substitute eng marker sc expr @ scan eng marker sc None cs
      else scan eng marker sc (Some (expr @ [c])) cs)"

definition render ::
  "'sc script_engine \<Rightarrow> (string \<Rightarrow> string \<Rightarrow> string) \<Rightarrow> string \<Rightarrow> 'sc \<Rightarrow> string" where
  "render eng marker template sc = scan eng marker sc None template"

section \<open>A small story\<close>

text \<open>
  A story with the sections \<open>start\<close> and \<open>cave\<close>, whose engine state is the amount
  of gold; every visit finds one piece, digging finds five. The section \<open>trap\<close>
  has run-code that adds a hundred pieces and then fails. Every amount of gold has
  its own state object.
\<close>

definition dig_result :: result where
  "dig_result =
     \<lparr>result_confirmMsg = Some ''Dig here?'',
      result_nextSectionId = Some ''cave'',
      result_notifyMsg = Some ''You dig.''\<rparr>"

definition dig_option :: "nat story_option" where
  "dig_option = \<lparr>option_id = ''dig'', execute = (\<lambda>st. Returned dig_result (st + 5))\<rparr>"

definition rest_result :: result where
  "rest_result =
     \<lparr>result_confirmMsg = Some ''Rest a while?'',
      result_nextSectionId = None,
      result_notifyMsg = Some ''You rest.''\<rparr>"

definition rest_option :: "nat story_option" where
  "rest_option = \<lparr>option_id = ''rest'', execute = (\<lambda>st. Returned rest_result st)\<rparr>"

definition demo_section :: "string \<Rightarrow> nat story_section" where
  "demo_section sid =
     \<lparr>section_id = sid,
      section_text = (\<lambda>st. if st = 0 then ''No gold.'' else ''Gold!''),
      section_options = (\<lambda>st. [(''dig'', dig_option), (''rest'', rest_option)]),
      visit = (\<lambda>st. Returned () (Suc st))\<rparr>"

definition trap_section :: "nat story_section" where
  "trap_section =
     \<lparr>section_id = ''trap'',
      section_text = (\<lambda>st. ''A trap.''),
      section_options = (\<lambda>st. []),
      visit = (\<lambda>st. Thrown ''attempt to call a nil value'' (st + 100))\<rparr>"

definition demo_story :: "nat story" where
  "demo_story =
     \<lparr>story_title = ''Demo'',
      getSection = (\<lambda>sid. if sid = ''start'' \<or> sid = ''cave'' then Some (demo_section sid)
                           else if sid = ''trap'' then Some trap_section else None),
      getState = (\<lambda>st. (st, VMap [(''gold'', VNum (int st))])),
      setState = (\<lambda>v st. case v of VNum n \<Rightarrow> Returned () (nat n) | _ \<Rightarrow> Thrown ''bad state'' st),
      trigger = (\<lambda>eventId args st.
                   if eventId = ''drink'' then Returned ''Glug.'' (st + 1)
                   else Thrown ''unknown event'' st)\<rparr>"

text \<open>The decimal digits of a number, for the text that is stored.\<close>

function show_nat :: "nat \<Rightarrow> string" where
  "show_nat n =
     (if n < 10 then [char_of (48 + n)]
      else show_nat (n div 10) @ [char_of (48 + n mod 10)])"
  by pat_completeness auto
termination
  by (relation "measure id") auto

declare show_nat.simps [simp del]

definition demo_stringify :: "val \<Rightarrow> string" where
  "demo_stringify v =
     (case v of
        VNum n \<Rightarrow> show_nat (nat n)
      | VMap [(k, VNum n)] \<Rightarrow>
          ''{'' @ [CHR 0x22] @ k @ [CHR 0x22] @ '':'' @ show_nat (nat n) @ ''}''
      | _ \<Rightarrow> ''null'')"

text \<open>Case conversion of the ASCII letters, and the percent-encoding of a space.\<close>

definition ascii_upper :: "char \<Rightarrow> char" where
  "ascii_upper c =
     (let n = (of_char c :: nat) in if 97 \<le> n \<and> n \<le> 122 then char_of (n - 32) else c)"

definition ascii_lower :: "char \<Rightarrow> char" where
  "ascii_lower c =
     (let n = (of_char c :: nat) in if 65 \<le> n \<and> n \<le> 90 then char_of (n + 32) else c)"

definition demo_env :: "nat env" where
  "demo_env =
     \<lparr>json_stringify = demo_stringify,
      json_parse = (\<lambda>s. if s = ''7'' then Inr (VNum 7) else Inl ''Unexpected token''),
      story_param = (\<lambda>url. Some ''demo.yaml''),
      parse_story = (\<lambda>url. Some (demo_story, 0)),
      encode_fragment = (\<lambda>s. concat (map (\<lambda>c. if c = CHR '' '' then ''%20'' else [c]) s)),
      toUpperCase = map ascii_upper,
      toLowerCase = map ascii_lower\<rparr>"

definition demo_app :: "nat app" where
  "demo_app = fresh_page ''http://codex/?story=demo.yaml#cave'' Map.empty 0"

text \<open>The page once \<open>init\<close> has run: the story is in \<open>cave\<close> and the watcher is registered.\<close>

definition demo_started :: "nat app" where
  "demo_started = run_state (init demo_env demo_app)"

text \<open>
  From there: a visit of \<open>start\<close>, then the failing visit of \<open>trap\<close>, then a visit
  of \<open>cave\<close>, each followed by the microtasks it has queued.
\<close>

definition demo_at_start :: "nat app" where
  "demo_at_start =
     run_state (microtasks demo_env (gotoSection demo_env demo_story ''start'' demo_started))"

definition demo_after_trap :: "nat app" where
  "demo_after_trap =
     run_state (microtasks demo_env (gotoSection demo_env demo_story ''trap'' demo_at_start))"

definition demo_in_cave :: "nat app" where
  "demo_in_cave =
     run_state (microtasks demo_env (gotoSection demo_env demo_story ''cave'' demo_after_trap))"

definition demo_engine :: "unit script_engine" where
  "demo_engine =
     \<lparr>se_execute = (\<lambda>sc code. if code = ''1+1'' then Inr (VNum 2) else Inl ''syntax error''),
      se_tostring = (\<lambda>v. case v of VNum n \<Rightarrow> (if n = 2 then ''2'' else ''?'') | _ \<Rightarrow> ''?'')\<rparr>"

definition demo_marker :: "string \<Rightarrow> string \<Rightarrow> string" where
  "demo_marker expr err = ''[error: '' @ err @ '']''"

section \<open>Properties of the string utilities\<close>

lemma newlineToBr_append:
  "newlineToBr (a @ b) = newlineToBr a @ newlineToBr b"
  by (induction a) simp_all

lemma newlineToBr_no_newline:
  "newline \<notin> set (newlineToBr s)"
  by (induction s) (simp_all add: newline_def)

lemma newlineToBr_fixed:
  "newline \<notin> set s \<Longrightarrow> newlineToBr s = s"
  by (induction s) auto

text \<open>
  Claim C10. \<open>newlineToBr\<close> replaces every line feed of its input by \<^verbatim>\<open><br/>\<close> and
  copies every other character, its output contains no line feed, and it is
  idempotent.
\<close>

theorem newlineToBr_replaces_all_idempotent:
  "newlineToBr s = concat (map (\<lambda>c. if c = newline then ''<br/>'' else [c]) s)
   \<and> newline \<notin> set (newlineToBr s)
   \<and> newlineToBr (newlineToBr s) = newlineToBr s"
proof (intro conjI)
  show "newlineToBr s = concat (map (\<lambda>c. if c = newline then ''<br/>'' else [c]) s)"
    by (induction s) simp_all
  show "newline \<notin> set (newlineToBr s)"
    by (rule newlineToBr_no_newline)
  show "newlineToBr (newlineToBr s) = newlineToBr s"
    by (rule newlineToBr_fixed) (rule newlineToBr_no_newline)
qed

section \<open>URLs and the record of calls\<close>

lemma split_char_not_Nil: "split_char c s \<noteq> []"
  by (induction s) (simp_all split: list.splits)

lemma hd_split_char: "hd (split_char c s) = takeWhile (\<lambda>x. x \<noteq> c) s"
  by (induction s) (auto split: list.splits simp add: split_char_not_Nil)

lemma location_hash_no_fragment:
  "location_hash (takeWhile (\<lambda>c. c \<noteq> CHR ''#'') url) = []"
proof -
  have h: "dropWhile (\<lambda>c. c \<noteq> CHR ''#'') (takeWhile (\<lambda>c. c \<noteq> CHR ''#'') url) = []"
    by (auto simp add: dropWhile_eq_Nil_conv dest: set_takeWhileD)
  show ?thesis
    by (simp only: location_hash_def Let_def h) simp
qed

lemma startSectionId_no_fragment:
  "startSectionId (hd (split_char CHR ''#'' url)) = ''start''"
  by (simp add: startSectionId_def hd_split_char location_hash_no_fragment)

lemma startSectionId_start_iff:
  "startSectionId url = ''start''
     \<longleftrightarrow> drop 1 (location_hash url) = [] \<or> drop 1 (location_hash url) = ''start''"
  by (simp add: startSectionId_def Let_def)

lemma gotoSection_no_restart_lookup:
  "GetSectionCalled ''restart'' \<notin> set (trace a) \<Longrightarrow>
   GetSectionCalled ''restart'' \<notin> set (trace (run_state (gotoSection env story sid a)))"
  by (simp add: gotoSection_def removeItem_def assign_state_def replaceState_def Let_def
        split: option.splits outcome.splits)

lemma gotoSection_no_restart_lookup_run:
  "gotoSection env story sid a = r \<Longrightarrow> GetSectionCalled ''restart'' \<notin> set (trace a) \<Longrightarrow>
   GetSectionCalled ''restart'' \<notin> set (trace (run_state r))"
  using gotoSection_no_restart_lookup [of a env story sid] by simp

lemma takeOption_rest_no_restart_lookup:
  "GetSectionCalled ''restart'' \<notin> set (trace a) \<Longrightarrow>
   GetSectionCalled ''restart'' \<notin> set (trace (run_state (takeOption_rest env story res a)))"
  by (auto simp add: takeOption_rest_def notify_def split: option.splits run.splits
        dest: gotoSection_no_restart_lookup_run)

lemma takeOption_no_restart_lookup:
  "GetSectionCalled ''restart'' \<notin> set (trace a) \<Longrightarrow>
   GetSectionCalled ''restart'' \<notin> set (trace (run_state (takeOption env story opt a)))"
  by (simp add: takeOption_def confirm_def Let_def takeOption_rest_no_restart_lookup
        split: option.splits outcome.splits)

lemma triggerEvent_rest_no_restart_lookup:
  "GetSectionCalled ''restart'' \<notin> set (trace a) \<Longrightarrow>
   GetSectionCalled ''restart'' \<notin> set (trace (run_state (triggerEvent_rest env story ev args b a)))"
  by (simp add: triggerEvent_rest_def assign_state_def notify_def Let_def split: outcome.splits)

lemma confirmResult_no_restart_lookup:
  "GetSectionCalled ''restart'' \<notin> set (trace a) \<Longrightarrow>
   GetSectionCalled ''restart'' \<notin> set (trace (run_state (confirmResult env story b a)))"
  by (simp add: confirmResult_def Let_def takeOption_rest_no_restart_lookup
        triggerEvent_rest_no_restart_lookup split: option.splits cont.splits)

lemma restore_saved_trace:
  "GetSectionCalled sid \<notin> set (trace a) \<Longrightarrow>
   GetSectionCalled sid \<notin> set (trace (restore_saved env story a))"
  by (simp add: restore_saved_def Let_def split: option.splits sum.splits outcome.splits)

lemma init_story_no_restart_lookup:
  "GetSectionCalled ''restart'' \<notin> set (trace a) \<Longrightarrow>
   GetSectionCalled ''restart'' \<notin> set (trace (run_state (init_story env story a)))"
  by (auto simp add: init_story_def Let_def removeItem_def restore_saved_trace
        split: run.splits dest!: gotoSection_no_restart_lookup_run)

lemma init_no_restart_lookup:
  "GetSectionCalled ''restart'' \<notin> set (trace a) \<Longrightarrow>
   GetSectionCalled ''restart'' \<notin> set (trace (run_state (init env a)))"
  by (simp add: init_def Let_def init_story_no_restart_lookup split: option.splits prod.splits)

lemma gotoSection_no_setState_run:
  "gotoSection env story sid a = r \<Longrightarrow> SetStateCalled v \<notin> set (trace a) \<Longrightarrow>
   SetStateCalled v \<notin> set (trace (run_state r))"
  by (auto simp add: gotoSection_def removeItem_def assign_state_def replaceState_def Let_def
        split: option.splits outcome.splits if_splits)

lemma gotoSection_unwatched_storage_run:
  "gotoSection env story sid a = r \<Longrightarrow> \<not> watching a \<Longrightarrow> sid \<noteq> ''restart'' \<Longrightarrow>
   localStorage (run_state r) = localStorage a"
  by (auto simp add: gotoSection_def assign_state_def replaceState_def Let_def
        split: option.splits outcome.splits)

lemma gotoSection_unwatched_run:
  "gotoSection env story sid a = r \<Longrightarrow> \<not> watching a \<Longrightarrow> sid \<noteq> ''restart'' \<Longrightarrow>
   SetStateCalled v \<notin> set (trace a) \<Longrightarrow>
   localStorage (run_state r) = localStorage a \<and> SetStateCalled v \<notin> set (trace (run_state r))"
  using gotoSection_no_setState_run gotoSection_unwatched_storage_run by blast

section \<open>The small story after startup\<close>

lemmas demo_page_defs =
  demo_started_def init_def init_story_def demo_env_def demo_app_def fresh_page_def
  startSectionId_def location_hash_def restore_saved_def demo_story_def demo_section_def
  trap_section_def

lemma demo_started_fields:
  "finished (init demo_env demo_app)
   \<and> engine demo_started = 1 \<and> watching demo_started \<and> \<not> watcher_queued demo_started
   \<and> localStorage demo_started = Map.empty \<and> state_ref demo_started = StoryObject 1
   \<and> state demo_started = VMap [(''gold'', VNum 1)]
   \<and> sv_id (cur_section demo_started) = ''cave''
   \<and> href demo_started = ''http://codex/?story=demo.yaml#cave''
   \<and> notifyMsg demo_started = [] \<and> \<not> notifyDialogOpen demo_started"
  by (simp add: demo_page_defs gotoSection_def assign_state_def replaceState_def Let_def)

section \<open>Navigation\<close>

text \<open>
  Claim C2. \<open>gotoSection\<close> with the target \<open>restart\<close> deletes the saved state
  blob and assigns the URL without its fragment to \<^verbatim>\<open>window.location.href\<close>, and
  does nothing else: no section is looked up. The page this loads has no anchor, so
  its \<open>init\<close> enters the section \<open>start\<close> on the engine state that
  \<^verbatim>\<open>Story.parse\<close> built from the definition, with nothing restored. No method of
  the application ever calls \<open>getSection\<close> with the id \<open>restart\<close>.
\<close>

theorem restart_discards_state_and_reenters_start:
  assumes "base = hd (split_char CHR ''#'' (href a))"
    and "story_param env base = Some storyUrl" and "storyUrl \<noteq> []"
    and "parse_story env storyUrl = Some (story', st0)"
    and "getSection story' ''start'' = Some sec"
    and "visit sec st0 = Returned () st1"
    and "GetSectionCalled ''restart'' \<notin> set (trace a)"
  shows "gotoSection env story ''restart'' a =
           Finished (a\<lparr>localStorage := (localStorage a)(''codex_state'' := None),
                       navigation := Some base,
                       trace := trace a @ [StorageRemoved ''codex_state'', PageLoad base]\<rparr>)
         \<and> startSectionId base = ''start''
         \<and> finished (init env (fresh_page base ((localStorage a)(''codex_state'' := None)) st))
         \<and> sv_id (cur_section (run_state
              (init env (fresh_page base ((localStorage a)(''codex_state'' := None)) st))))
             = section_id sec
         \<and> engine (run_state
              (init env (fresh_page base ((localStorage a)(''codex_state'' := None)) st))) = st1
         \<and> localStorage (run_state
              (init env (fresh_page base ((localStorage a)(''codex_state'' := None)) st)))
              ''codex_state'' = None
         \<and> trace (run_state
              (init env (fresh_page base ((localStorage a)(''codex_state'' := None)) st))) =
             [StorageRemoved ''codex_state'', GetSectionCalled ''start'',
              VisitCalled (section_id sec), VisitReturned (section_id sec), GetStateCalled,
              HashReplaced ''start'']
         \<and> GetSectionCalled ''restart'' \<notin> set (trace (run_state (gotoSection env story sid a)))
         \<and> GetSectionCalled ''restart'' \<notin> set (trace (run_state (takeOption env story opt a)))
         \<and> GetSectionCalled ''restart'' \<notin> set (trace (run_state (confirmResult env story b a)))
         \<and> GetSectionCalled ''restart'' \<notin> set (trace (run_state (init env a)))"
proof -
  have s: "startSectionId base = ''start''"
    using assms(1) by (simp add: startSectionId_no_fragment)
  have g: "gotoSection env story ''restart'' a =
           Finished (a\<lparr>localStorage := (localStorage a)(''codex_state'' := None),
                       navigation := Some base,
                       trace := trace a @ [StorageRemoved ''codex_state'', PageLoad base]\<rparr>)"
    using assms(1) by (simp add: gotoSection_def removeItem_def Let_def)
  have i: "init env (fresh_page base ((localStorage a)(''codex_state'' := None)) st) =
           init_story env story' ((fresh_page base ((localStorage a)(''codex_state'' := None)) st)
              \<lparr>console := [ConsoleLog (''Hello '' @ storyUrl) []], engine := st0\<rparr>)"
    using assms(2-4) by (simp add: init_def fresh_page_def Let_def)
  have r: "finished (init env (fresh_page base ((localStorage a)(''codex_state'' := None)) st))
         \<and> sv_id (cur_section (run_state
              (init env (fresh_page base ((localStorage a)(''codex_state'' := None)) st))))
             = section_id sec
         \<and> engine (run_state
              (init env (fresh_page base ((localStorage a)(''codex_state'' := None)) st))) = st1
         \<and> localStorage (run_state
              (init env (fresh_page base ((localStorage a)(''codex_state'' := None)) st)))
              ''codex_state'' = None
         \<and> trace (run_state
              (init env (fresh_page base ((localStorage a)(''codex_state'' := None)) st))) =
             [StorageRemoved ''codex_state'', GetSectionCalled ''start'',
              VisitCalled (section_id sec), VisitReturned (section_id sec), GetStateCalled,
              HashReplaced ''start'']"
    unfolding i using s assms(5,6)
    by (simp add: init_story_def fresh_page_def removeItem_def gotoSection_def assign_state_def
          replaceState_def Let_def)
  show ?thesis
    using g s r assms(7)
    by (simp add: gotoSection_no_restart_lookup takeOption_no_restart_lookup
          confirmResult_no_restart_lookup init_no_restart_lookup)
qed

theorem restart_discards_state_and_reenters_start_witness:
  "''http://codex/?story=demo.yaml'' = hd (split_char CHR ''#'' (href demo_app))
   \<and> story_param demo_env ''http://codex/?story=demo.yaml'' = Some ''demo.yaml''
   \<and> ''demo.yaml'' \<noteq> []
   \<and> parse_story demo_env ''demo.yaml'' = Some (demo_story, 0)
   \<and> getSection demo_story ''start'' = Some (demo_section ''start'')
   \<and> visit (demo_section ''start'') 0 = Returned () 1
   \<and> GetSectionCalled ''restart'' \<notin> set (trace demo_app)
   \<and> gotoSection demo_env demo_story ''restart'' demo_app =
           Finished (demo_app\<lparr>localStorage := (localStorage demo_app)(''codex_state'' := None),
                       navigation := Some ''http://codex/?story=demo.yaml'',
                       trace := trace demo_app @ [StorageRemoved ''codex_state'',
                                  PageLoad ''http://codex/?story=demo.yaml'']\<rparr>)
   \<and> startSectionId ''http://codex/?story=demo.yaml'' = ''start''
   \<and> finished (init demo_env (fresh_page ''http://codex/?story=demo.yaml''
                 ((localStorage demo_app)(''codex_state'' := None)) 0))
   \<and> sv_id (cur_section (run_state (init demo_env (fresh_page ''http://codex/?story=demo.yaml''
                 ((localStorage demo_app)(''codex_state'' := None)) 0)))) = ''start''
   \<and> engine (run_state (init demo_env (fresh_page ''http://codex/?story=demo.yaml''
                 ((localStorage demo_app)(''codex_state'' := None)) 0))) = 1
   \<and> GetSectionCalled ''restart'' \<notin>
        set (trace (run_state (gotoSection demo_env demo_story ''restart'' demo_app)))"
proof -
  have h1: "''http://codex/?story=demo.yaml'' = hd (split_char CHR ''#'' (href demo_app))"
    by (simp add: demo_app_def fresh_page_def)
  have h2: "story_param demo_env ''http://codex/?story=demo.yaml'' = Some ''demo.yaml''"
    by (simp add: demo_env_def)
  have h3: "''demo.yaml'' \<noteq> []"
    by simp
  have h4: "parse_story demo_env ''demo.yaml'' = Some (demo_story, 0)"
    by (simp add: demo_env_def)
  have h5: "getSection demo_story ''start'' = Some (demo_section ''start'')"
    by (simp add: demo_story_def)
  have h6: "visit (demo_section ''start'') 0 = Returned () 1"
    by (simp add: demo_section_def)
  have h7: "GetSectionCalled ''restart'' \<notin> set (trace demo_app)"
    by (simp add: demo_app_def fresh_page_def)
  have h8: "section_id (demo_section ''start'') = ''start''"
    by (simp add: demo_section_def)
  note t = restart_discards_state_and_reenters_start
             [OF h1 h2 h3 h4 h5 h6 h7, where story = demo_story and st = 0
                and sid = "''restart''" and opt = dig_option and b = True]
  show ?thesis
    using h1 h2 h4 h5 h6 h7 h8 t by simp
qed


text \<open>
  Claim C3. For a section id that is not \<open>restart\<close> and that the story does not
  know, \<open>gotoSection\<close> returns normally; all it does is look the section up and
  report the id with \<^verbatim>\<open>console.error\<close>. The displayed section, the engine state,
  the state object, the local storage and the URL with its hash are as before.
\<close>

theorem gotoSection_missing_section:
  assumes "sectionId \<noteq> ''restart''" and "getSection story sectionId = None"
  shows "gotoSection env story sectionId a =
           Finished (a\<lparr>trace := trace a @ [GetSectionCalled sectionId],
                       console := console a @
                         [ConsoleError ''Section not found:'' [VStr sectionId]]\<rparr>)
         \<and> cur_section (run_state (gotoSection env story sectionId a)) = cur_section a
         \<and> engine (run_state (gotoSection env story sectionId a)) = engine a
         \<and> state (run_state (gotoSection env story sectionId a)) = state a
         \<and> localStorage (run_state (gotoSection env story sectionId a)) = localStorage a
         \<and> href (run_state (gotoSection env story sectionId a)) = href a
         \<and> location_hash (href (run_state (gotoSection env story sectionId a))) = location_hash (href a)"
  using assms by (simp add: gotoSection_def)

theorem gotoSection_missing_section_witness:
  "''nowhere'' \<noteq> ''restart'' \<and> getSection demo_story ''nowhere'' = None
   \<and> gotoSection demo_env demo_story ''nowhere'' demo_app =
       Finished (demo_app\<lparr>trace := trace demo_app @ [GetSectionCalled ''nowhere''],
                   console := console demo_app @
                     [ConsoleError ''Section not found:'' [VStr ''nowhere'']]\<rparr>)
   \<and> cur_section (run_state (gotoSection demo_env demo_story ''nowhere'' demo_app))
       = cur_section demo_app
   \<and> engine (run_state (gotoSection demo_env demo_story ''nowhere'' demo_app)) = engine demo_app
   \<and> href (run_state (gotoSection demo_env demo_story ''nowhere'' demo_app)) = href demo_app"
proof -
  have h1: "''nowhere'' \<noteq> ''restart''"
    by simp
  have h2: "getSection demo_story ''nowhere'' = None"
    by (simp add: demo_story_def)
  note t = gotoSection_missing_section [OF h1 h2, where env = demo_env and a = demo_app]
  show ?thesis
    using h2 t by simp
qed

text \<open>
  Claim C4, as stated, fails: a visit that throws leaves what it had already done in
  the engine, and the next navigation stores it. Here the saved gold is 2, the
  visit of \<open>trap\<close> adds a hundred pieces and fails, which leaves the saved text as
  it is, and the visit of \<open>cave\<close> that follows saves 103: the hundred pieces of the
  aborted visit are in the stored state.
\<close>

theorem aborted_visit_enters_next_snapshot:
  "finished (init demo_env demo_app)
   \<and> engine demo_started = 1
   \<and> finished (gotoSection demo_env demo_story ''start'' demo_started)
   \<and> engine demo_at_start = 2
   \<and> localStorage demo_at_start ''codex_state'' =
       Some (''{'' @ [CHR 0x22] @ ''gold'' @ [CHR 0x22] @ '':2}'')
   \<and> visit trap_section (engine demo_at_start) = Thrown ''attempt to call a nil value'' 102
   \<and> \<not> finished (gotoSection demo_env demo_story ''trap'' demo_at_start)
   \<and> engine demo_after_trap = 102
   \<and> localStorage demo_after_trap ''codex_state'' =
       Some (''{'' @ [CHR 0x22] @ ''gold'' @ [CHR 0x22] @ '':2}'')
   \<and> finished (gotoSection demo_env demo_story ''cave'' demo_after_trap)
   \<and> state demo_in_cave = VMap [(''gold'', VNum 103)]
   \<and> localStorage demo_in_cave ''codex_state'' =
       Some (''{'' @ [CHR 0x22] @ ''gold'' @ [CHR 0x22] @ '':103}'')"
proof -
  have n2: "show_nat 2 = ''2''"
    by code_simp
  have n103: "show_nat 103 = ''103''"
    by code_simp
  show ?thesis
    by (simp add: demo_at_start_def demo_after_trap_def demo_in_cave_def demo_page_defs
          gotoSection_def assign_state_def replaceState_def run_watcher_def demo_stringify_def
          n2 n103 Let_def)
qed

text \<open>
  Claim C4, amended. On a navigation to a known section the state object is read
  from the engine only after \<open>visit\<close> has returned, nothing is stored during the
  call, and what the watcher stores afterwards (when it is registered and the
  object is a new one) is that state object. When \<open>visit\<close> throws, the navigation
  assigns no state and queues no watcher, so the stored snapshot stays the earlier
  one.
\<close>

theorem gotoSection_snapshot_after_visit:
  assumes "sectionId \<noteq> ''restart''" and "getSection story sectionId = Some sec"
    and "\<not> watcher_queued a"
  shows "(visit sec (engine a) = Returned () st' \<longrightarrow>
            finished (gotoSection env story sectionId a)
          \<and> engine (run_state (gotoSection env story sectionId a)) = st'
          \<and> state (run_state (gotoSection env story sectionId a)) = snd (getState story st')
          \<and> state_ref (run_state (gotoSection env story sectionId a)) =
              StoryObject (fst (getState story st'))
          \<and> localStorage (run_state (gotoSection env story sectionId a)) = localStorage a
          \<and> trace (run_state (gotoSection env story sectionId a)) =
              trace a @ [GetSectionCalled sectionId, VisitCalled (section_id sec),
                         VisitReturned (section_id sec), GetStateCalled,
                         HashReplaced sectionId]
          \<and> localStorage (run_state (microtasks env (gotoSection env story sectionId a))) =
              (if watching a \<and> StoryObject (fst (getState story st')) \<noteq> state_ref a
               then (localStorage a)
                      (''codex_state'' \<mapsto> json_stringify env (snd (getState story st')))
               else localStorage a)
          \<and> trace (run_state (microtasks env (gotoSection env story sectionId a))) =
              trace a @ [GetSectionCalled sectionId, VisitCalled (section_id sec),
                         VisitReturned (section_id sec), GetStateCalled,
                         HashReplaced sectionId]
                @ (if watching a \<and> StoryObject (fst (getState story st')) \<noteq> state_ref a
                   then [StorageSet ''codex_state''
                           (json_stringify env (snd (getState story st')))]
                   else []))
       \<and> (visit sec (engine a) = Thrown e st'' \<longrightarrow>
            gotoSection env story sectionId a =
              Failed e (a\<lparr>trace := trace a @ [GetSectionCalled sectionId,
                                                VisitCalled (section_id sec)],
                          engine := st''\<rparr>)
          \<and> microtasks env (gotoSection env story sectionId a) =
              gotoSection env story sectionId a
          \<and> state (run_state (microtasks env (gotoSection env story sectionId a))) = state a
          \<and> state_ref (run_state (microtasks env (gotoSection env story sectionId a))) =
              state_ref a
          \<and> localStorage (run_state (microtasks env (gotoSection env story sectionId a))) =
              localStorage a)"
  using assms
  by (simp add: gotoSection_def assign_state_def replaceState_def run_watcher_def)

theorem gotoSection_snapshot_after_visit_witness:
  "''start'' \<noteq> ''restart''
   \<and> getSection demo_story ''start'' = Some (demo_section ''start'')
   \<and> \<not> watcher_queued demo_started
   \<and> visit (demo_section ''start'') (engine demo_started) = Returned () 2
   \<and> watching demo_started
   \<and> StoryObject (fst (getState demo_story 2)) \<noteq> state_ref demo_started
   \<and> state (run_state (gotoSection demo_env demo_story ''start'' demo_started))
       = VMap [(''gold'', VNum 2)]
   \<and> localStorage (run_state (gotoSection demo_env demo_story ''start'' demo_started))
        ''codex_state'' = None
   \<and> localStorage (run_state (microtasks demo_env
         (gotoSection demo_env demo_story ''start'' demo_started))) ''codex_state''
       = Some (''{'' @ [CHR 0x22] @ ''gold'' @ [CHR 0x22] @ '':2}'')
   \<and> ''trap'' \<noteq> ''restart''
   \<and> getSection demo_story ''trap'' = Some trap_section
   \<and> visit trap_section (engine demo_started) = Thrown ''attempt to call a nil value'' 101
   \<and> state (run_state (microtasks demo_env
         (gotoSection demo_env demo_story ''trap'' demo_started))) = VMap [(''gold'', VNum 1)]
   \<and> localStorage (run_state (microtasks demo_env
         (gotoSection demo_env demo_story ''trap'' demo_started))) ''codex_state'' = None"
proof -
  note f = demo_started_fields
  have h1: "''start'' \<noteq> ''restart''"
    by simp
  have h2: "getSection demo_story ''start'' = Some (demo_section ''start'')"
    by (simp add: demo_story_def)
  have h3: "\<not> watcher_queued demo_started"
    using f by simp
  have h4: "visit (demo_section ''start'') (engine demo_started) = Returned () 2"
    using f by (simp add: demo_section_def)
  have h5: "StoryObject (fst (getState demo_story 2)) \<noteq> state_ref demo_started"
    using f by (simp add: demo_story_def)
  have h6: "watching demo_started"
    using f by simp
  have k1: "''trap'' \<noteq> ''restart''"
    by simp
  have k2: "getSection demo_story ''trap'' = Some trap_section"
    by (simp add: demo_story_def)
  have k4: "visit trap_section (engine demo_started) = Thrown ''attempt to call a nil value'' 101"
    using f by (simp add: trap_section_def)
  have g: "snd (getState demo_story 2) = VMap [(''gold'', VNum 2)]"
    by (simp add: demo_story_def)
  have j: "json_stringify demo_env (VMap [(''gold'', VNum 2)]) =
             ''{'' @ [CHR 0x22] @ ''gold'' @ [CHR 0x22] @ '':2}''"
  proof -
    have "show_nat 2 = ''2''"
      by code_simp
    then show ?thesis
      by (simp add: demo_env_def demo_stringify_def)
  qed
  note t1 = gotoSection_snapshot_after_visit
              [OF h1 h2 h3, where env = demo_env and st' = 2]
  note t2 = gotoSection_snapshot_after_visit
              [OF k1 k2 h3, where env = demo_env and st'' = 101
                 and e = "''attempt to call a nil value''"]
  have c1: "state (run_state (gotoSection demo_env demo_story ''start'' demo_started))
       = VMap [(''gold'', VNum 2)]
   \<and> localStorage (run_state (gotoSection demo_env demo_story ''start'' demo_started))
        ''codex_state'' = None
   \<and> localStorage (run_state (microtasks demo_env
         (gotoSection demo_env demo_story ''start'' demo_started))) ''codex_state''
       = Some (''{'' @ [CHR 0x22] @ ''gold'' @ [CHR 0x22] @ '':2}'')"
    using t1 h4 h5 h6 g j f by simp
  have c2: "state (run_state (microtasks demo_env
         (gotoSection demo_env demo_story ''trap'' demo_started))) = VMap [(''gold'', VNum 1)]
   \<and> localStorage (run_state (microtasks demo_env
         (gotoSection demo_env demo_story ''trap'' demo_started))) ''codex_state'' = None"
  proof -
    have "state (run_state (microtasks demo_env
             (gotoSection demo_env demo_story ''trap'' demo_started))) = state demo_started
          \<and> localStorage (run_state (microtasks demo_env
             (gotoSection demo_env demo_story ''trap'' demo_started))) = localStorage demo_started"
      using t2 k4 by blast
    then show ?thesis
      using f by simp
  qed
  show ?thesis
    using h2 h3 h4 h5 h6 k2 k4 c1 c2 by simp
qed

section \<open>Choosing an option\<close>




text \<open>
  Claim C5. When the result of \<open>execute\<close> has no next-section identifier,
  \<open>takeOption\<close>, run to its end through the dialog if there is one, ends normally
  and leaves the displayed section (id, title, text and options), the URL and
  hence its hash as they were, and starts no page load.
\<close>

theorem takeOption_without_goto_stays:
  assumes "execute opt (engine a) = Returned res st'"
    and "result_nextSectionId res = None"
  shows "finished (answered env story b (takeOption env story opt a))
         \<and> cur_section (run_state (answered env story b (takeOption env story opt a))) = cur_section a
         \<and> href (run_state (answered env story b (takeOption env story opt a))) = href a
         \<and> navigation (run_state (answered env story b (takeOption env story opt a))) = navigation a
         \<and> cur_section (run_state (takeOption env story opt a)) = cur_section a
         \<and> href (run_state (takeOption env story opt a)) = href a"
  using assms
  by (simp add: takeOption_def takeOption_rest_def confirm_def confirmResult_def notify_def
        Let_def split: option.splits)

theorem takeOption_without_goto_stays_witness:
  "execute rest_option (engine (demo_app\<lparr>engine := 3\<rparr>)) = Returned rest_result 3
   \<and> result_nextSectionId rest_result = None
   \<and> finished (answered demo_env demo_story True (takeOption demo_env demo_story rest_option (demo_app\<lparr>engine := 3\<rparr>)))
   \<and> sv_title (cur_section (run_state (answered demo_env demo_story True
         (takeOption demo_env demo_story rest_option (demo_app\<lparr>engine := 3\<rparr>))))) = ''Loading...''
   \<and> href (run_state (answered demo_env demo_story True
         (takeOption demo_env demo_story rest_option (demo_app\<lparr>engine := 3\<rparr>))))
       = ''http://codex/?story=demo.yaml#cave''"
  using takeOption_without_goto_stays
          [where opt = rest_option and a = "demo_app\<lparr>engine := 3\<rparr>" and res = rest_result and st' = 3
             and env = demo_env and story = demo_story and b = True]
  by (simp add: rest_option_def rest_result_def demo_app_def fresh_page_def)

section \<open>Events\<close>

text \<open>
  Claim C9. \<open>triggerEvent\<close> only opens the confirmation dialog and waits. When
  the user declines, nothing but the dialog's own fields has changed: no event
  handler was called, the engine state, the state object, the local storage and
  the notification are as before. When the user accepts, the event handler is
  called after the answer: the engine state is the one it leaves, the state object
  is read from it and its message is shown as the notification; when the handler
  throws, the method ends with that error.
\<close>

theorem triggerEvent_waits_for_yes:
  "triggerEvent msg eventId args a =
     Suspended (a\<lparr>confirmMsg := newlineToBr (msg @ [newline, newline] @ ''Are you sure?''),
                  confirmResolve := Some (TriggerEventK eventId args),
                  confirmDialogOpen := True,
                  trace := trace a @ [ConfirmShown (msg @ [newline, newline] @ ''Are you sure?'')]\<rparr>)
   \<and> confirmResult env story False (run_state (triggerEvent msg eventId args a)) =
       Finished (a\<lparr>confirmMsg := newlineToBr (msg @ [newline, newline] @ ''Are you sure?''),
                   confirmResolve := None,
                   confirmDialogOpen := False,
                   trace := trace a @ [ConfirmShown (msg @ [newline, newline] @ ''Are you sure?''),
                                       ConfirmAnswered False]\<rparr>)
   \<and> (trigger story eventId args (engine a) = Returned message st' \<longrightarrow>
         finished (confirmResult env story True (run_state (triggerEvent msg eventId args a)))
       \<and> engine (run_state (confirmResult env story True
             (run_state (triggerEvent msg eventId args a)))) = st'
       \<and> state (run_state (confirmResult env story True
             (run_state (triggerEvent msg eventId args a)))) = snd (getState story st')
       \<and> state_ref (run_state (confirmResult env story True
             (run_state (triggerEvent msg eventId args a)))) =
           StoryObject (fst (getState story st'))
       \<and> notifyMsg (run_state (confirmResult env story True
             (run_state (triggerEvent msg eventId args a)))) = newlineToBr message
       \<and> notifyDialogOpen (run_state (confirmResult env story True
             (run_state (triggerEvent msg eventId args a))))
       \<and> trace (run_state (confirmResult env story True
             (run_state (triggerEvent msg eventId args a)))) =
           trace a @ [ConfirmShown (msg @ [newline, newline] @ ''Are you sure?''),
                      ConfirmAnswered True, TriggerCalled eventId args,
                      TriggerReturned eventId, GetStateCalled, NotifyShown message])
   \<and> (trigger story eventId args (engine a) = Thrown e st' \<longrightarrow>
         confirmResult env story True (run_state (triggerEvent msg eventId args a)) =
           Failed e (a\<lparr>confirmMsg := newlineToBr (msg @ [newline, newline] @ ''Are you sure?''),
                       confirmResolve := None,
                       engine := st',
                       confirmDialogOpen := False,
                       trace := trace a @ [ConfirmShown (msg @ [newline, newline] @ ''Are you sure?''),
                                           ConfirmAnswered True, TriggerCalled eventId args]\<rparr>))"
  by (simp add: triggerEvent_def confirm_def confirmResult_def triggerEvent_rest_def
        assign_state_def notify_def Let_def)

theorem triggerEvent_waits_for_yes_witness:
  "trigger demo_story ''drink'' [] (engine demo_started) = Returned ''Glug.'' 2
   \<and> finished (confirmResult demo_env demo_story True
        (run_state (triggerEvent ''Drink the potion?'' ''drink'' [] demo_started)))
   \<and> engine (run_state (confirmResult demo_env demo_story True
        (run_state (triggerEvent ''Drink the potion?'' ''drink'' [] demo_started)))) = 2
   \<and> state (run_state (confirmResult demo_env demo_story True
        (run_state (triggerEvent ''Drink the potion?'' ''drink'' [] demo_started))))
       = VMap [(''gold'', VNum 2)]
   \<and> notifyMsg (run_state (confirmResult demo_env demo_story True
        (run_state (triggerEvent ''Drink the potion?'' ''drink'' [] demo_started)))) = ''Glug.''
   \<and> engine (run_state (confirmResult demo_env demo_story False
        (run_state (triggerEvent ''Drink the potion?'' ''drink'' [] demo_started)))) = 1
   \<and> notifyMsg (run_state (confirmResult demo_env demo_story False
        (run_state (triggerEvent ''Drink the potion?'' ''drink'' [] demo_started)))) = []
   \<and> trigger demo_story ''sing'' [] (engine demo_started) = Thrown ''unknown event'' 1
   \<and> \<not> finished (confirmResult demo_env demo_story True
        (run_state (triggerEvent ''Sing?'' ''sing'' [] demo_started)))"
proof -
  note f = demo_started_fields
  have e1: "engine demo_started = 1"
    using f by blast
  have m1: "notifyMsg demo_started = []"
    using f by blast
  have h1: "trigger demo_story ''drink'' [] (engine demo_started) = Returned ''Glug.'' 2"
    by (simp only: e1) (simp add: demo_story_def)
  have h2: "trigger demo_story ''sing'' [] (engine demo_started) = Thrown ''unknown event'' 1"
    by (simp only: e1) (simp add: demo_story_def)
  note t1 = triggerEvent_waits_for_yes
              [where msg = "''Drink the potion?''" and eventId = "''drink''" and args = "[]"
                 and a = demo_started and env = demo_env and story = demo_story
                 and message = "''Glug.''" and st' = 2]
  note t2 = triggerEvent_waits_for_yes
              [where msg = "''Sing?''" and eventId = "''sing''" and args = "[]"
                 and a = demo_started and env = demo_env and story = demo_story
                 and e = "''unknown event''" and st' = 1]
  let ?asked = "run_state (triggerEvent ''Drink the potion?'' ''drink'' [] demo_started)"
  let ?yes = "confirmResult demo_env demo_story True ?asked"
  let ?no = "confirmResult demo_env demo_story False ?asked"
  have y0: "finished ?yes"
    using t1 h1 by blast
  have y1: "engine (run_state ?yes) = 2"
    using t1 h1 by blast
  have y2: "state (run_state ?yes) = snd (getState demo_story 2)"
    using t1 h1 by blast
  have y3: "notifyMsg (run_state ?yes) = newlineToBr ''Glug.''"
    using t1 h1 by blast
  have y2': "state (run_state ?yes) = VMap [(''gold'', VNum 2)]"
    by (simp only: y2) (simp add: demo_story_def)
  have y3': "notifyMsg (run_state ?yes) = ''Glug.''"
    by (simp only: y3) (simp add: newline_def)
  have d0: "?no =
       Finished (demo_started\<lparr>confirmMsg :=
                     newlineToBr (''Drink the potion?'' @ [newline, newline] @ ''Are you sure?''),
                   confirmResolve := None,
                   confirmDialogOpen := False,
                   trace := trace demo_started @
                     [ConfirmShown (''Drink the potion?'' @ [newline, newline] @ ''Are you sure?''),
                      ConfirmAnswered False]\<rparr>)"
    using t1 by blast
  have d1: "engine (run_state ?no) = 1"
    by (simp only: d0 run_state.simps) (simp add: e1)
  have d2: "notifyMsg (run_state ?no) = []"
    by (simp only: d0 run_state.simps) (simp add: m1)
  have z0: "confirmResult demo_env demo_story True
              (run_state (triggerEvent ''Sing?'' ''sing'' [] demo_started)) =
           Failed ''unknown event''
             (demo_started\<lparr>confirmMsg :=
                  newlineToBr (''Sing?'' @ [newline, newline] @ ''Are you sure?''),
                confirmResolve := None,
                engine := 1,
                confirmDialogOpen := False,
                trace := trace demo_started @
                  [ConfirmShown (''Sing?'' @ [newline, newline] @ ''Are you sure?''),
                   ConfirmAnswered True, TriggerCalled ''sing'' []]\<rparr>)"
    using t2 h2 by blast
  have z: "\<not> finished (confirmResult demo_env demo_story True
        (run_state (triggerEvent ''Sing?'' ''sing'' [] demo_started)))"
    by (simp only: z0 finished.simps) simp
  show ?thesis
    using h1 h2 y0 y1 y2' y3' d1 d2 z by blast
qed

section \<open>Startup\<close>

text \<open>
  Claim C8. At startup, with the story loaded: when the URL has no anchor or the
  anchor \<open>start\<close>, the saved blob is deleted, \<open>setState\<close> is never called and the
  start section is visited on the engine state built from the definition. With any
  other anchor a saved blob that parses is handed to \<open>setState\<close> before the
  section of the anchor is visited; a blob that does not parse is reported with
  \<^verbatim>\<open>console.error\<close> and otherwise ignored, and startup goes on from the
  definition's state and ends normally.
\<close>

theorem init_restores_saved_state_only_off_start:
  assumes "story_param env url = Some storyUrl" and "storyUrl \<noteq> []"
    and "parse_story env storyUrl = Some (story, st0)"
    and "anchor = drop 1 (location_hash url)"
  shows "let r = init env (fresh_page url store st) in
         (anchor = [] \<or> anchor = ''start'' \<longrightarrow>
            localStorage (run_state r) ''codex_state'' = None
          \<and> SetStateCalled v \<notin> set (trace (run_state r))
          \<and> (getSection story ''start'' = Some sec \<and> visit sec st0 = Returned () st1 \<longrightarrow>
               finished r \<and> engine (run_state r) = st1
             \<and> sv_id (cur_section (run_state r)) = section_id sec))
       \<and> (anchor \<noteq> [] \<and> anchor \<noteq> ''start'' \<and> anchor \<noteq> ''restart''
          \<and> store ''codex_state'' = Some blob \<and> blob \<noteq> []
          \<and> getSection story anchor = Some sec \<longrightarrow>
            (json_parse env blob = Inr v \<and> setState story v st0 = Returned () st0'
             \<and> visit sec st0' = Returned () st1 \<longrightarrow>
               finished r \<and> engine (run_state r) = st1
             \<and> trace (run_state r) =
                 [SetStateCalled v, GetSectionCalled anchor, VisitCalled (section_id sec),
                  VisitReturned (section_id sec), GetStateCalled, HashReplaced anchor])
          \<and> (json_parse env blob = Inl e \<and> visit sec st0 = Returned () st1 \<longrightarrow>
               finished r \<and> engine (run_state r) = st1
             \<and> localStorage (run_state r) = store
             \<and> console (run_state r) =
                 [ConsoleLog (''Hello '' @ storyUrl) [],
                  ConsoleError ''Failed to parse saved state from localStorage:'' [VStr e],
                  ConsoleLog ''Loaded story:'' [VStr (story_title story)]]
             \<and> trace (run_state r) =
                 [GetSectionCalled anchor, VisitCalled (section_id sec),
                  VisitReturned (section_id sec), GetStateCalled, HashReplaced anchor]))"
proof -
  define a0 where "a0 = (fresh_page url store st)
      \<lparr>console := [ConsoleLog (''Hello '' @ storyUrl) []], engine := st0\<rparr>"
  have i: "init env (fresh_page url store st) = init_story env story a0"
    using assms(1-3) by (simp add: init_def fresh_page_def Let_def a0_def)
  have p1: "localStorage (run_state (init_story env story a0)) ''codex_state'' = None
          \<and> SetStateCalled v \<notin> set (trace (run_state (init_story env story a0)))"
    if "anchor = [] \<or> anchor = ''start''"
  proof -
    have s: "startSectionId url = ''start''"
      using that assms(4) by (simp add: startSectionId_start_iff)
    show ?thesis
      using s
      by (auto simp add: init_story_def Let_def a0_def fresh_page_def removeItem_def
            split: run.splits
            dest!: gotoSection_unwatched_run [where v = v])
  qed
  have p2: "finished (init_story env story a0) \<and> engine (run_state (init_story env story a0)) = st1
             \<and> sv_id (cur_section (run_state (init_story env story a0))) = section_id sec"
    if "anchor = [] \<or> anchor = ''start''" "getSection story ''start'' = Some sec"
       "visit sec st0 = Returned () st1"
  proof -
    have s: "startSectionId url = ''start''"
      using that(1) assms(4) by (simp add: startSectionId_start_iff)
    show ?thesis
      using s that(2,3)
      by (simp add: init_story_def Let_def a0_def fresh_page_def removeItem_def gotoSection_def
            assign_state_def replaceState_def)
  qed
  have s': "startSectionId url = anchor" if "anchor \<noteq> []"
    using that assms(4) by (simp add: startSectionId_def Let_def)
  have p3: "finished (init_story env story a0) \<and> engine (run_state (init_story env story a0)) = st1
             \<and> trace (run_state (init_story env story a0)) =
                 [SetStateCalled v, GetSectionCalled anchor, VisitCalled (section_id sec),
                  VisitReturned (section_id sec), GetStateCalled, HashReplaced anchor]"
    if "anchor \<noteq> []" "anchor \<noteq> ''start''" "anchor \<noteq> ''restart''"
       "store ''codex_state'' = Some blob" "blob \<noteq> []" "getSection story anchor = Some sec"
       "json_parse env blob = Inr v" "setState story v st0 = Returned () st0'"
       "visit sec st0' = Returned () st1"
    using s' [OF that(1)] that
    by (simp add: init_story_def Let_def a0_def fresh_page_def restore_saved_def gotoSection_def
          assign_state_def replaceState_def)
  have p4: "finished (init_story env story a0) \<and> engine (run_state (init_story env story a0)) = st1
             \<and> localStorage (run_state (init_story env story a0)) = store
             \<and> console (run_state (init_story env story a0)) =
                 [ConsoleLog (''Hello '' @ storyUrl) [],
                  ConsoleError ''Failed to parse saved state from localStorage:'' [VStr e],
                  ConsoleLog ''Loaded story:'' [VStr (story_title story)]]
             \<and> trace (run_state (init_story env story a0)) =
                 [GetSectionCalled anchor, VisitCalled (section_id sec),
                  VisitReturned (section_id sec), GetStateCalled, HashReplaced anchor]"
    if "anchor \<noteq> []" "anchor \<noteq> ''start''" "anchor \<noteq> ''restart''"
       "store ''codex_state'' = Some blob" "blob \<noteq> []" "getSection story anchor = Some sec"
       "json_parse env blob = Inl e" "visit sec st0 = Returned () st1"
    using s' [OF that(1)] that
    by (simp add: init_story_def Let_def a0_def fresh_page_def restore_saved_def gotoSection_def
          assign_state_def replaceState_def)
  show ?thesis
    unfolding Let_def i using p1 p2 p3 p4 by blast
qed

theorem init_restores_saved_state_only_off_start_witness:
  "story_param demo_env ''http://codex/?story=demo.yaml'' = Some ''demo.yaml''
   \<and> story_param demo_env ''http://codex/?story=demo.yaml#cave'' = Some ''demo.yaml''
   \<and> parse_story demo_env ''demo.yaml'' = Some (demo_story, 0)
   \<and> drop 1 (location_hash ''http://codex/?story=demo.yaml'') = []
   \<and> localStorage (run_state (init demo_env
        (fresh_page ''http://codex/?story=demo.yaml'' [''codex_state'' \<mapsto> ''7''] 0)))
        ''codex_state'' = None
   \<and> SetStateCalled (VNum 7) \<notin> set (trace (run_state (init demo_env
        (fresh_page ''http://codex/?story=demo.yaml'' [''codex_state'' \<mapsto> ''7''] 0))))
   \<and> engine (run_state (init demo_env
        (fresh_page ''http://codex/?story=demo.yaml'' [''codex_state'' \<mapsto> ''7''] 0))) = 1
   \<and> drop 1 (location_hash ''http://codex/?story=demo.yaml#cave'') = ''cave''
   \<and> json_parse demo_env ''7'' = Inr (VNum 7)
   \<and> setState demo_story (VNum 7) 0 = Returned () 7
   \<and> engine (run_state (init demo_env
        (fresh_page ''http://codex/?story=demo.yaml#cave'' [''codex_state'' \<mapsto> ''7''] 0))) = 8
   \<and> json_parse demo_env ''junk'' = Inl ''Unexpected token''
   \<and> finished (init demo_env
        (fresh_page ''http://codex/?story=demo.yaml#cave'' [''codex_state'' \<mapsto> ''junk''] 0))
   \<and> engine (run_state (init demo_env
        (fresh_page ''http://codex/?story=demo.yaml#cave'' [''codex_state'' \<mapsto> ''junk''] 0))) = 1"
proof -
  have p1: "story_param demo_env ''http://codex/?story=demo.yaml'' = Some ''demo.yaml''"
    by (simp add: demo_env_def)
  have p2: "story_param demo_env ''http://codex/?story=demo.yaml#cave'' = Some ''demo.yaml''"
    by (simp add: demo_env_def)
  have n: "''demo.yaml'' \<noteq> []"
    by simp
  have q: "parse_story demo_env ''demo.yaml'' = Some (demo_story, 0)"
    by (simp add: demo_env_def)
  have a1: "[] = drop 1 (location_hash ''http://codex/?story=demo.yaml'')"
    by (simp add: location_hash_def)
  have a2: "''cave'' = drop 1 (location_hash ''http://codex/?story=demo.yaml#cave'')"
    by (simp add: location_hash_def)
  have g1: "getSection demo_story ''start'' = Some (demo_section ''start'')"
    by (simp add: demo_story_def)
  have g2: "getSection demo_story ''cave'' = Some (demo_section ''cave'')"
    by (simp add: demo_story_def)
  have v0: "visit (demo_section ''start'') 0 = Returned () 1"
    by (simp add: demo_section_def)
  have v1: "visit (demo_section ''cave'') 0 = Returned () 1"
    by (simp add: demo_section_def)
  have v7: "visit (demo_section ''cave'') 7 = Returned () 8"
    by (simp add: demo_section_def)
  have j7: "json_parse demo_env ''7'' = Inr (VNum 7)"
    by (simp add: demo_env_def)
  have jj: "json_parse demo_env ''junk'' = Inl ''Unexpected token''"
    by (simp add: demo_env_def)
  have s7: "setState demo_story (VNum 7) 0 = Returned () 7"
    by (simp add: demo_story_def)
  note t1 = init_restores_saved_state_only_off_start
              [OF p1 n q a1, where store = "[''codex_state'' \<mapsto> ''7'']" and st = 0
                 and v = "VNum 7" and sec = "demo_section ''start''" and ?st1.0 = 1]
  note t2 = init_restores_saved_state_only_off_start
              [OF p2 n q a2, where store = "[''codex_state'' \<mapsto> ''7'']" and st = 0
                 and blob = "''7''" and v = "VNum 7" and sec = "demo_section ''cave''"
                 and st0' = 7 and ?st1.0 = 8]
  note t3 = init_restores_saved_state_only_off_start
              [OF p2 n q a2, where store = "[''codex_state'' \<mapsto> ''junk'']" and st = 0
                 and blob = "''junk''" and e = "''Unexpected token''"
                 and sec = "demo_section ''cave''" and ?st1.0 = 1]
  have c1: "localStorage (run_state (init demo_env
        (fresh_page ''http://codex/?story=demo.yaml'' [''codex_state'' \<mapsto> ''7''] 0)))
        ''codex_state'' = None
   \<and> SetStateCalled (VNum 7) \<notin> set (trace (run_state (init demo_env
        (fresh_page ''http://codex/?story=demo.yaml'' [''codex_state'' \<mapsto> ''7''] 0))))
   \<and> engine (run_state (init demo_env
        (fresh_page ''http://codex/?story=demo.yaml'' [''codex_state'' \<mapsto> ''7''] 0))) = 1"
    using t1 g1 v0 by (simp add: Let_def)
  have c2: "engine (run_state (init demo_env
        (fresh_page ''http://codex/?story=demo.yaml#cave'' [''codex_state'' \<mapsto> ''7''] 0))) = 8"
    using t2 g2 v7 j7 s7 by (simp add: Let_def)
  have c3: "finished (init demo_env
        (fresh_page ''http://codex/?story=demo.yaml#cave'' [''codex_state'' \<mapsto> ''junk''] 0))
   \<and> engine (run_state (init demo_env
        (fresh_page ''http://codex/?story=demo.yaml#cave'' [''codex_state'' \<mapsto> ''junk''] 0))) = 1"
    using t3 g2 v1 jj by (simp add: Let_def)
  show ?thesis
    using p1 p2 q a1 a2 j7 s7 jj c1 c2 c3 by simp
qed

section \<open>Snapshots and interpolation\<close>

text \<open>
  Claim C6. A snapshot, restored into any scopes and taken again, is the same
  snapshot, and the restored global and section tiers are the ones the snapshot was
  taken from, whatever the kind of the values in them. A snapshot does not depend
  on the ephemeral tier, so no ephemeral value is in it, and the ephemeral tier is
  empty after every restore.
\<close>

theorem snapshot_restore_roundtrip:
  "snapshotState (restoreState (snapshotState sc) sc') = snapshotState sc
   \<and> global_tier (restoreState (snapshotState sc) sc') = global_tier sc
   \<and> section_tier (restoreState (snapshotState sc) sc') = section_tier sc
   \<and> snapshotState (sc\<lparr>ephemeral_tier := eph\<rparr>) = snapshotState sc
   \<and> snapshotState (setEphemeral name v sc) = snapshotState sc
   \<and> ephemeral_tier (restoreState blob sc) = Map.empty"
  by (simp add: snapshotState_def restoreState_def setEphemeral_def)

lemma scan_inside:
  "CHR ''}'' \<notin> set expr \<Longrightarrow>
   scan eng marker sc (Some acc) (expr @ CHR ''}'' # post) =
     substitute eng marker sc (acc @ expr) @ scan eng marker sc None post"
  by (induction expr arbitrary: acc) auto

lemma scan_outside:
  "CHR ''{'' \<notin> set pre \<Longrightarrow>
   scan eng marker sc None (pre @ post) = pre @ scan eng marker sc None post"
  by (induction pre) auto

text \<open>
  Claim C7. A placeholder that follows text without an opening brace is replaced,
  in place, by the stringified value of its expression when the evaluation
  succeeds and by the diagnostic marker when it fails; in both cases the text
  before it is kept and the text after it is rendered as usual. With an engine for
  which \<open>1+1\<close> is 2 and 2 prints as \<open>2\<close>, the template \<open>{1+1}\<close> renders as
  \<open>2\<close>.
\<close>

theorem render_placeholder_in_place:
  assumes "CHR ''{'' \<notin> set pre" and "CHR ''}'' \<notin> set expr"
  shows "render eng marker (pre @ ''{'' @ expr @ ''}'' @ post) sc =
           pre @ (case se_execute eng sc expr of
                    Inr v \<Rightarrow> se_tostring eng v
                  | Inl err \<Rightarrow> marker expr err) @ render eng marker post sc
         \<and> (se_execute eng sc ''1+1'' = Inr (VNum 2) \<and> se_tostring eng (VNum 2) = ''2'' \<longrightarrow>
              render eng marker ''{1+1}'' sc = ''2'')"
proof
  show "render eng marker (pre @ ''{'' @ expr @ ''}'' @ post) sc =
           pre @ (case se_execute eng sc expr of
                    Inr v \<Rightarrow> se_tostring eng v
                  | Inl err \<Rightarrow> marker expr err) @ render eng marker post sc"
    using assms scan_inside [of expr eng marker sc "[]" post]
    by (simp add: render_def scan_outside substitute_def)
  show "se_execute eng sc ''1+1'' = Inr (VNum 2) \<and> se_tostring eng (VNum 2) = ''2'' \<longrightarrow>
              render eng marker ''{1+1}'' sc = ''2''"
    by (simp add: render_def substitute_def)
qed

theorem render_placeholder_in_place_witness:
  "CHR ''{'' \<notin> set ''Oh: '' \<and> CHR ''}'' \<notin> set ''boom''
   \<and> se_execute demo_engine () ''boom'' = Inl ''syntax error''
   \<and> se_execute demo_engine () ''1+1'' = Inr (VNum 2) \<and> se_tostring demo_engine (VNum 2) = ''2''
   \<and> render demo_engine demo_marker ''{1+1}'' () = ''2''
   \<and> render demo_engine demo_marker ''Oh: {boom} and {1+1}!'' () =
       ''Oh: [error: syntax error] and 2!''"
proof -
  have h1: "CHR ''{'' \<notin> set ''Oh: ''"
    by simp
  have h2: "CHR ''}'' \<notin> set ''boom''"
    by simp
  have h3: "se_execute demo_engine () ''boom'' = Inl ''syntax error''"
    by (simp add: demo_engine_def)
  have h4: "se_execute demo_engine () ''1+1'' = Inr (VNum 2)"
    by (simp add: demo_engine_def)
  have h5: "se_tostring demo_engine (VNum 2) = ''2''"
    by (simp add: demo_engine_def)
  note t = render_placeholder_in_place
             [OF h1 h2, where eng = demo_engine and marker = demo_marker and sc = "()"
                and post = "'' and {1+1}!''"]
  have r: "render demo_engine demo_marker '' and {1+1}!'' () = '' and 2!''"
    by (simp add: render_def substitute_def demo_engine_def)
  have c1: "render demo_engine demo_marker ''{1+1}'' () = ''2''"
    using t h4 h5 by blast
  have c2: "render demo_engine demo_marker ''Oh: {boom} and {1+1}!'' () =
       ''Oh: [error: syntax error] and 2!''"
    using t h3 r by (simp add: demo_marker_def)
  show ?thesis
    using h3 h4 h5 c1 c2 by simp
qed

end
